theory Spec2Isabelle
  imports Complex_Main "HOL-Library.Product_Lexorder" "HOL-Library.Multiset"
begin

section \<open>Data model of swiftocr.py\<close>

text \<open>
  The raw records are the dictionaries decoded from the recognizer's JSON output
  (\<^verbatim>\<open>BoundingBoxDict\<close>, \<^verbatim>\<open>OCRResultDict\<close>); only records with all
  keys present are modelled. Python's unbounded integers are \<^typ>\<open>int\<close>. Confidences and
  scores are Python floats; the program only negates and compares them, which on finite
  floats agrees with the order of the reals, so they are \<^typ>\<open>real\<close> here (NaN is not
  modelled). Python strings are \<^typ>\<open>string\<close>.
\<close>

record BoundingBoxDict =
  d_x :: int
  d_y :: int
  d_width :: int
  d_height :: int

record OCRResultDict =
  d_text :: string
  d_confidence :: real
  d_boundingBox :: BoundingBoxDict

text \<open>Class \<^verbatim>\<open>BoundingBox\<close>: the four stored fields and the derived corners.\<close>

record BoundingBox =
  bb_x :: int
  bb_y :: int
  bb_width :: int
  bb_height :: int

definition center :: "BoundingBox \<Rightarrow> int \<times> int" where
  "center b = (bb_x b + bb_width b div 2, bb_y b + bb_height b div 2)"

definition top_left :: "BoundingBox \<Rightarrow> int \<times> int" where
  "top_left b = (bb_x b, bb_y b)"

definition top_right :: "BoundingBox \<Rightarrow> int \<times> int" where
  "top_right b = (bb_x b + bb_width b, bb_y b)"

definition bottom_left :: "BoundingBox \<Rightarrow> int \<times> int" where
  "bottom_left b = (bb_x b, bb_y b + bb_height b)"

definition bottom_right :: "BoundingBox \<Rightarrow> int \<times> int" where
  "bottom_right b = (bb_x b + bb_width b, bb_y b + bb_height b)"

definition diagonal :: "BoundingBox \<Rightarrow> int \<times> int \<times> int \<times> int" where
  "diagonal b = (bb_x b, bb_y b, bb_x b + bb_width b, bb_y b + bb_height b)"

text \<open>Class \<^verbatim>\<open>OCRResult\<close>: one recognized fragment.\<close>

record OCRResult =
  r_text :: string
  r_confidence :: real
  r_bounding_box :: BoundingBox

text \<open>The property \<^verbatim>\<open>OCRResult.data\<close> rebuilds the raw dictionary from the fields.\<close>

definition OCRResult_data :: "OCRResult \<Rightarrow> OCRResultDict" where
  "OCRResult_data self =
     \<lparr>d_text = r_text self,
      d_confidence = r_confidence self,
      d_boundingBox =
        \<lparr>d_x = bb_x (r_bounding_box self),
         d_y = bb_y (r_bounding_box self),
         d_width = bb_width (r_bounding_box self),
         d_height = bb_height (r_bounding_box self)\<rparr>\<rparr>"

text \<open>
  The right operand of \<^verbatim>\<open>OCRResult.__eq__\<close> is a string, another
  \<^verbatim>\<open>OCRResult\<close>, or a value of any other type.
\<close>

datatype operand = OStr string | OResult OCRResult | OOther

fun OCRResult_eq :: "OCRResult \<Rightarrow> operand \<Rightarrow> bool" where
  "OCRResult_eq self (OStr other) = (r_text self = other)"
| "OCRResult_eq self (OResult other) = (OCRResult_data self = OCRResult_data other)"
| "OCRResult_eq self OOther = False"

text \<open>
  Class \<^verbatim>\<open>OCRResults\<close> keeps the raw records in \<open>data\<close> and the parsed fragments in
  \<open>items\<close>; the constructor builds the second from the first.
\<close>

record OCRResults =
  data :: "OCRResultDict list"
  items :: "OCRResult list"

definition OCRResult_of_dict :: "OCRResultDict \<Rightarrow> OCRResult" where
  "OCRResult_of_dict item =
     \<lparr>r_text = d_text item,
      r_confidence = d_confidence item,
      r_bounding_box =
        \<lparr>bb_x = d_x (d_boundingBox item),
         bb_y = d_y (d_boundingBox item),
         bb_width = d_width (d_boundingBox item),
         bb_height = d_height (d_boundingBox item)\<rparr>\<rparr>"

definition OCRResults_init :: "OCRResultDict list \<Rightarrow> OCRResults" where
  "OCRResults_init ds = \<lparr>data = ds, items = map OCRResult_of_dict ds\<rparr>"

definition len :: "OCRResults \<Rightarrow> nat" where
  "len self = length (items self)"

definition empty :: "OCRResults \<Rightarrow> bool" where
  "empty self = (items self = [])"

definition exists :: "OCRResults \<Rightarrow> bool" where
  "exists self = (items self \<noteq> [])"

section \<open>Python primitives the collection relies on\<close>

datatype error = IndexError | TypeError | ValueError | ReError | Unmodelled

text \<open>
  \<^verbatim>\<open>xs[i]\<close> on a list: a negative index counts from the end, anything outside
  \<open>-n \<le> i < n\<close> raises IndexError.
\<close>

definition py_index :: "'a list \<Rightarrow> int \<Rightarrow> error + 'a" where
  "py_index xs i =
     (if 0 \<le> i \<and> i < int (length xs) then Inr (xs ! nat i)
      else if i < 0 \<and> - int (length xs) \<le> i then Inr (xs ! nat (int (length xs) + i))
      else Inl IndexError)"

text \<open>
  \<^verbatim>\<open>xs[lo:hi:step]\<close>: the bounds are clipped as \<^verbatim>\<open>slice.indices\<close> does, a zero
  step raises ValueError, and the selected positions are
  \<open>start, start + step, \<dots>\<close> up to but excluding \<open>stop\<close>.
\<close>

definition slice_indices ::
  "nat \<Rightarrow> int option \<Rightarrow> int option \<Rightarrow> int option \<Rightarrow> error + (int \<times> int \<times> int)" where
  "slice_indices n lo hi st =
     (let step = (case st of None \<Rightarrow> 1 | Some s \<Rightarrow> s) in
      if step = 0 then Inl ValueError
      else
        let lower = (if step < 0 then - 1 else 0);
            upper = (if step < 0 then int n - 1 else int n);
            clip = (\<lambda>v. if v < 0 then max (v + int n) lower else min v upper);
            start = (case lo of None \<Rightarrow> (if step < 0 then upper else lower) | Some v \<Rightarrow> clip v);
            stop = (case hi of None \<Rightarrow> (if step < 0 then lower else upper) | Some v \<Rightarrow> clip v)
        in Inr (start, stop, step))"

definition slice_count :: "int \<Rightarrow> int \<Rightarrow> int \<Rightarrow> nat" where
  "slice_count start stop step =
     (if 0 < step then (if start < stop then nat ((stop - start + step - 1) div step) else 0)
      else (if stop < start then nat ((start - stop - step - 1) div (- step)) else 0))"

definition py_slice :: "'a list \<Rightarrow> int option \<Rightarrow> int option \<Rightarrow> int option \<Rightarrow> error + 'a list" where
  "py_slice xs lo hi st =
     (case slice_indices (length xs) lo hi st of
        Inl e \<Rightarrow> Inl e
      | Inr (start, stop, step) \<Rightarrow>
          Inr (map (\<lambda>k. xs ! nat (start + int k * step)) [0..<slice_count start stop step]))"

text \<open>
  \<^verbatim>\<open>str.lower\<close> on ASCII text: the 26 capital letters are mapped to their small
  counterparts, every other character is left alone. Python lowers cased letters beyond
  ASCII as well; text with such letters is outside this model. The properties proved below
  use no fact about which characters are lowered.
\<close>

definition lower_char :: "char \<Rightarrow> char" where
  "lower_char c =
     (case map_of (zip ''ABCDEFGHIJKLMNOPQRSTUVWXYZ'' ''abcdefghijklmnopqrstuvwxyz'') c of
        Some l \<Rightarrow> l
      | None \<Rightarrow> c)"

definition lower :: "string \<Rightarrow> string" where
  "lower s = map lower_char s"

text \<open>\<^verbatim>\<open>sub in s\<close> on strings: \<open>sub\<close> occurs in \<open>s\<close> as a contiguous block.\<close>

fun startswith :: "string \<Rightarrow> string \<Rightarrow> bool" where
  "startswith s [] = True"
| "startswith [] (p # ps) = False"
| "startswith (c # cs) (p # ps) = (c = p \<and> startswith cs ps)"

fun str_in :: "string \<Rightarrow> string \<Rightarrow> bool" where
  "str_in sub [] = (sub = [])"
| "str_in sub (c # cs) = (startswith (c # cs) sub \<or> str_in sub cs)"

text \<open>
  A list comprehension whose condition may raise: the elements are tested from left to
  right and the first exception ends the comprehension.
\<close>

fun filter_raising :: "('a \<Rightarrow> error + bool) \<Rightarrow> 'a list \<Rightarrow> error + 'a list" where
  "filter_raising p [] = Inr []"
| "filter_raising p (d # ds) =
     (case p d of
        Inl e \<Rightarrow> Inl e
      | Inr b \<Rightarrow>
          (case filter_raising p ds of
             Inl e \<Rightarrow> Inl e
           | Inr r \<Rightarrow> Inr (if b then d # r else r)))"

text \<open>
  \<^verbatim>\<open>re.match(pattern, string, flags)\<close> of the standard library, as the truth value of
  its result or the exception it raises. The collection takes the matcher as a parameter;
  \<open>re_match\<close> below is the fragment of it that the examples run on: with \<open>flags = 0\<close>, a
  pattern of literal characters and \<open>.\<close> matches when it fits a prefix of the string
  (\<open>.\<close> fits every character but the newline), and a pattern that besides such characters
  has an opening parenthesis, which nothing closes, is rejected by the compiler with
  \<^verbatim>\<open>re.error\<close>. Every other call is marked \<open>Unmodelled\<close>.
\<close>

definition re_special :: "char list" where
  "re_special = CHR 0x5C # ''.^$*+?{}[]|()''"

fun plain_match :: "string \<Rightarrow> string \<Rightarrow> bool" where
  "plain_match [] s = True"
| "plain_match (p # ps) [] = False"
| "plain_match (p # ps) (c # cs) =
     ((if p = CHR ''.'' then c \<noteq> CHR 0x0A else p = c) \<and> plain_match ps cs)"

definition metachars :: "string \<Rightarrow> string" where
  "metachars pattern = filter (\<lambda>c. c \<in> set re_special) pattern"

definition re_match :: "string \<Rightarrow> string \<Rightarrow> int \<Rightarrow> error + bool" where
  "re_match pattern s flags =
     (if flags = 0
      then (if list_all (\<lambda>c. c = CHR ''.'') (metachars pattern)
              then Inr (plain_match pattern s)
            else if list_all (\<lambda>c. c = CHR ''.'' \<or> c = CHR ''('') (metachars pattern)
              then Inl ReError
            else Inl Unmodelled)
      else Inl Unmodelled)"

section \<open>The collection and its query engine\<close>

datatype key = KInt int | KSlice "int option" "int option" "int option" | KOther

datatype element = Single OCRResult | Collection OCRResults

text \<open>\<^verbatim>\<open>OCRResults.__getitem__\<close>\<close>

fun getitem :: "OCRResults \<Rightarrow> key \<Rightarrow> error + element" where
  "getitem self (KInt k) =
     (case py_index (items self) k of Inl e \<Rightarrow> Inl e | Inr r \<Rightarrow> Inr (Single r))"
| "getitem self (KSlice lo hi st) =
     (case py_slice (data self) lo hi st of
        Inl e \<Rightarrow> Inl e
      | Inr ds \<Rightarrow> Inr (Collection (OCRResults_init ds)))"
| "getitem self KOther = Inl TypeError"

text \<open>\<^verbatim>\<open>OCRResults.__contains__\<close> and the property \<^verbatim>\<open>text\<close>\<close>

definition contains_text :: "OCRResults \<Rightarrow> string \<Rightarrow> bool" where
  "contains_text self s = list_ex (\<lambda>item. str_in s (r_text item)) (items self)"

definition texts :: "OCRResults \<Rightarrow> string list" where
  "texts self = map r_text (items self)"

definition minimum_confidence :: "OCRResults \<Rightarrow> real \<Rightarrow> OCRResults" where
  "minimum_confidence self threshold =
     OCRResults_init (filter (\<lambda>item. d_confidence item \<ge> threshold) (data self))"

text \<open>\<^verbatim>\<open>OCRResults.within\<close> (the word itself is taken by the syntax of filters in the library)\<close>

definition within_rect :: "OCRResults \<Rightarrow> int \<Rightarrow> int \<Rightarrow> int \<Rightarrow> int \<Rightarrow> OCRResults" where
  "within_rect self x y width height =
     OCRResults_init
       (filter
          (\<lambda>item.
             x \<le> d_x (d_boundingBox item)
             \<and> y \<le> d_y (d_boundingBox item)
             \<and> x + width \<ge> d_x (d_boundingBox item) + d_width (d_boundingBox item)
             \<and> y + height \<ge> d_y (d_boundingBox item) + d_height (d_boundingBox item))
          (data self))"

definition containing :: "OCRResults \<Rightarrow> string \<Rightarrow> bool \<Rightarrow> OCRResults" where
  "containing self s lowercase =
     (if lowercase
      then OCRResults_init (filter (\<lambda>item. str_in (lower s) (lower (d_text item))) (data self))
      else OCRResults_init (filter (\<lambda>item. str_in s (d_text item)) (data self)))"

definition exactly :: "OCRResults \<Rightarrow> string \<Rightarrow> bool \<Rightarrow> OCRResults" where
  "exactly self s lowercase =
     (if lowercase
      then OCRResults_init (filter (\<lambda>item. lower s = lower (d_text item)) (data self))
      else OCRResults_init (filter (\<lambda>item. s = d_text item) (data self)))"

text \<open>
  \<^verbatim>\<open>OCRResults.matching\<close>: the call in the source is
  \<^verbatim>\<open>re.match(item["text"], pattern, flag)\<close>, so the matcher \<open>rm\<close> receives the fragment's
  text in the place of the pattern and the caller's pattern in the place of the string.
\<close>

definition matching ::
  "(string \<Rightarrow> string \<Rightarrow> int \<Rightarrow> error + bool) \<Rightarrow> OCRResults \<Rightarrow> string \<Rightarrow> int \<Rightarrow> error + OCRResults" where
  "matching rm self pattern flag =
     (case filter_raising (\<lambda>item. rm (d_text item) pattern flag) (data self) of
        Inl e \<Rightarrow> Inl e
      | Inr ds \<Rightarrow> Inr (OCRResults_init ds))"

text \<open>\<^verbatim>\<open>OCRResults.filter\<close>, with the caller's predicate over raw records\<close>

definition filter_func :: "OCRResults \<Rightarrow> (OCRResultDict \<Rightarrow> bool) \<Rightarrow> OCRResults" where
  "filter_func self func = OCRResults_init (filter func (data self))"

text \<open>
  \<^verbatim>\<open>first\<close> and \<^verbatim>\<open>last\<close> read \<^verbatim>\<open>self.items[0]\<close> and
  \<^verbatim>\<open>self.items[-1]\<close> behind an emptiness test; the result is Python's
  \<^verbatim>\<open>None\<close>, a fragment, or the exception of the list access.
\<close>

definition first :: "OCRResults \<Rightarrow> error + OCRResult option" where
  "first self =
     (if items self \<noteq> []
      then (case py_index (items self) 0 of Inl e \<Rightarrow> Inl e | Inr r \<Rightarrow> Inr (Some r))
      else Inr None)"

definition last :: "OCRResults \<Rightarrow> error + OCRResult option" where
  "last self =
     (if items self \<noteq> []
      then (case py_index (items self) (- 1) of Inl e \<Rightarrow> Inl e | Inr r \<Rightarrow> Inr (Some r))
      else Inr None)"

subsection \<open>Ranked search\<close>

text \<open>
  The loop of \<^verbatim>\<open>_search_and_score\<close> appends the pairs that reach the threshold to
  \<open>matches\<close>, in the order of the raw records.
\<close>

fun collect_matches ::
  "(string \<Rightarrow> string \<Rightarrow> real) \<Rightarrow> string \<Rightarrow> real \<Rightarrow> bool \<Rightarrow> OCRResultDict list
     \<Rightarrow> (real \<times> OCRResultDict) list \<Rightarrow> (real \<times> OCRResultDict) list" where
  "collect_matches score_func query threshold lowercase [] matches = matches"
| "collect_matches score_func query threshold lowercase (d # ds) matches =
     (let target = (if lowercase then lower (d_text d) else d_text d);
          score = score_func query target
      in collect_matches score_func query threshold lowercase ds
           (if score \<ge> threshold then matches @ [(score, d)] else matches))"

text \<open>
  The key of the final \<^verbatim>\<open>sorted\<close> call; Python compares the tuples
  lexicographically, and \<^verbatim>\<open>sorted\<close> is stable, as \<^const>\<open>sort_key\<close> is.
\<close>

definition rank_key :: "real \<times> OCRResultDict \<Rightarrow> real \<times> int \<times> int \<times> real" where
  "rank_key x =
     (- fst x, d_x (d_boundingBox (snd x)), d_y (d_boundingBox (snd x)), d_confidence (snd x))"

definition internal_search_and_score ::
  "OCRResults \<Rightarrow> string \<Rightarrow> real \<Rightarrow> bool \<Rightarrow> (string \<Rightarrow> string \<Rightarrow> real)
     \<Rightarrow> (real \<times> OCRResultDict) list" where
  "internal_search_and_score self query threshold lowercase score_func =
     (let query1 = (if lowercase then lower query else query);
          query2 = (if lowercase then lower query1 else query1);
          matches = collect_matches score_func query2 threshold lowercase (data self) []
      in sort_key rank_key matches)"

definition search ::
  "OCRResults \<Rightarrow> string \<Rightarrow> real \<Rightarrow> bool \<Rightarrow> (string \<Rightarrow> string \<Rightarrow> real) \<Rightarrow> OCRResults" where
  "search self query threshold lowercase score_func =
     (let results = internal_search_and_score self query threshold lowercase score_func
      in OCRResults_init (map snd results))"

definition search_and_score ::
  "OCRResults \<Rightarrow> string \<Rightarrow> real \<Rightarrow> bool \<Rightarrow> (string \<Rightarrow> string \<Rightarrow> real)
     \<Rightarrow> (real \<times> OCRResult) list" where
  "search_and_score self query threshold lowercase score_func =
     (let results = internal_search_and_score self query threshold lowercase score_func;
          scores = map fst results;
          ocr = OCRResults_init (map snd results)
      in zip scores (items ocr))"


text \<open>A raw record written out from its six values, for the concrete collections below.\<close>

definition raw_record :: "string \<Rightarrow> real \<Rightarrow> int \<Rightarrow> int \<Rightarrow> int \<Rightarrow> int \<Rightarrow> OCRResultDict" where
  "raw_record t c x y w h =
     \<lparr>d_text = t, d_confidence = c,
      d_boundingBox = \<lparr>d_x = x, d_y = y, d_width = w, d_height = h\<rparr>\<rparr>"

section \<open>Auxiliary facts\<close>

lemma data_init: "data (OCRResults_init ds) = ds"
  by (simp add: OCRResults_init_def)

lemma items_init: "items (OCRResults_init ds) = map OCRResult_of_dict ds"
  by (simp add: OCRResults_init_def)



lemma search_and_score_map:
  "search_and_score self q th lc sf =
     map (\<lambda>(s, d). (s, OCRResult_of_dict d)) (internal_search_and_score self q th lc sf)"
  by (simp add: search_and_score_def Let_def items_init zip_map_map zip_same_conv_map
        case_prod_beta)

lemma fragment_key:
  "(\<lambda>(s, f). (- s, bb_x (r_bounding_box f), bb_y (r_bounding_box f), r_confidence f))
     ((\<lambda>(s, d). (s, OCRResult_of_dict d)) x) = rank_key x"
  by (simp add: rank_key_def OCRResult_of_dict_def case_prod_beta)

lemma key_le_unfold:
  "((a1 :: real, a2 :: int, a3 :: int, a4 :: real) \<le> (b1, b2, b3, b4)) \<longleftrightarrow>
     a1 < b1 \<or> (a1 = b1 \<and> (a2 < b2 \<or> (a2 = b2 \<and> (a3 < b3 \<or> (a3 = b3 \<and> a4 \<le> b4)))))"
  by (auto simp: less_eq_prod_def less_prod_def)

lemma filter_raising_Inr:
  "list_all (\<lambda>d. \<exists>b. p d = Inr b) ds \<Longrightarrow>
     filter_raising p ds = Inr (filter (\<lambda>d. p d = Inr True) ds)"
  by (induction ds) auto

lemma filter_raising_Inl:
  "filter_raising p ds = Inl e \<Longrightarrow> \<exists>d \<in> set ds. p d = Inl e"
  by (induction ds) (auto split: sum.splits)

lemma filter_raising_result:
  "filter_raising p ds = Inr r \<Longrightarrow> r = filter (\<lambda>d. p d = Inr True) ds"
  by (induction ds arbitrary: r) (auto split: sum.splits)

lemma unit_step_slice:
  assumes "0 \<le> a" "a \<le> int (length xs)" "0 \<le> b" "b \<le> int (length xs)"
  shows "map (\<lambda>k. xs ! nat (a + int k * 1)) [0..<slice_count a b 1] =
           take (nat (b - a)) (drop (nat a) xs)"
proof (rule nth_equalityI)
  have c: "slice_count a b 1 = nat (b - a)"
    by (simp add: slice_count_def)
  show "length (map (\<lambda>k. xs ! nat (a + int k * 1)) [0..<slice_count a b 1]) =
          length (take (nat (b - a)) (drop (nat a) xs))"
    using assms by (simp add: c)
  fix k assume "k < length (map (\<lambda>k. xs ! nat (a + int k * 1)) [0..<slice_count a b 1])"
  then have k: "k < nat (b - a)" by (simp add: c)
  have "nat (a + int k) = nat a + k" using assms(1) by simp
  then show "map (\<lambda>k. xs ! nat (a + int k * 1)) [0..<slice_count a b 1] ! k =
               take (nat (b - a)) (drop (nat a) xs) ! k"
    using k assms by (simp add: c)
qed

lemma py_slice_plain:
  "py_slice xs lo hi None =
     (let n = int (length xs);
          clip = (\<lambda>v. if v < 0 then max (v + n) 0 else min v n);
          a = (case lo of None \<Rightarrow> 0 | Some v \<Rightarrow> clip v);
          b = (case hi of None \<Rightarrow> n | Some v \<Rightarrow> clip v)
      in Inr (take (nat (b - a)) (drop (nat a) xs)))"
proof -
  define n where "n = int (length xs)"
  define clip where "clip = (\<lambda>v. if v < 0 then max (v + n) 0 else min v n)"
  define a where "a = (case lo of None \<Rightarrow> 0 | Some v \<Rightarrow> clip v)"
  define b where "b = (case hi of None \<Rightarrow> n | Some v \<Rightarrow> clip v)"
  have n0: "0 \<le> n" by (simp add: n_def)
  have clip_rng: "0 \<le> clip v \<and> clip v \<le> n" for v
    using n0 by (simp add: clip_def)
  have a_rng: "0 \<le> a \<and> a \<le> n"
    using n0 clip_rng by (simp add: a_def split: option.splits)
  have b_rng: "0 \<le> b \<and> b \<le> n"
    using n0 clip_rng by (simp add: b_def split: option.splits)
  have si: "slice_indices (length xs) lo hi None = Inr (a, b, 1)"
    by (simp add: slice_indices_def Let_def a_def b_def clip_def n_def split: option.splits)
  have "py_slice xs lo hi None = Inr (map (\<lambda>k. xs ! nat (a + int k * 1)) [0..<slice_count a b 1])"
    by (simp add: py_slice_def si)
  also have "\<dots> = Inr (take (nat (b - a)) (drop (nat a) xs))"
    using unit_step_slice [of a xs b] a_rng b_rng by (simp add: n_def)
  finally show ?thesis
    by (simp add: Let_def a_def b_def clip_def n_def split: option.splits)
qed

section \<open>Ranked search\<close>

text \<open>
  Claim C1. For every collection, query, threshold, lowercase flag and score function, the
  pairs returned by \<open>search_and_score\<close> are sorted ascending by the key
  \<open>(-score, x, y, confidence)\<close>: of two results, the earlier one has the higher score, or
  the same score and the smaller \<open>x\<close>, or also the same \<open>x\<close> and the smaller \<open>y\<close>, or also
  the same \<open>y\<close> and a confidence that is not larger. \<open>search\<close> returns the fragments of
  these pairs in the same order, over the raw records in that order, and the pairs of
  \<open>search_and_score\<close> are the ranked raw pairs with each record parsed.
\<close>

theorem search_sorted_by_composite_key:
  "sorted (map (\<lambda>(s, f). (- s, bb_x (r_bounding_box f), bb_y (r_bounding_box f), r_confidence f))
             (search_and_score self q th lc sf))
   \<and> (i < j \<and> j < length (search_and_score self q th lc sf) \<longrightarrow>
        (let a = search_and_score self q th lc sf ! i;
             b = search_and_score self q th lc sf ! j
         in fst b < fst a
            \<or> (fst a = fst b
                \<and> (bb_x (r_bounding_box (snd a)) < bb_x (r_bounding_box (snd b))
                    \<or> (bb_x (r_bounding_box (snd a)) = bb_x (r_bounding_box (snd b))
                        \<and> (bb_y (r_bounding_box (snd a)) < bb_y (r_bounding_box (snd b))
                            \<or> (bb_y (r_bounding_box (snd a)) = bb_y (r_bounding_box (snd b))
                                \<and> r_confidence (snd a) \<le> r_confidence (snd b))))))))
   \<and> items (search self q th lc sf) = map snd (search_and_score self q th lc sf)
   \<and> data (search self q th lc sf) = map snd (internal_search_and_score self q th lc sf)
   \<and> search_and_score self q th lc sf =
        map (\<lambda>(s, d). (s, OCRResult_of_dict d)) (internal_search_and_score self q th lc sf)
   \<and> sorted (map rank_key (internal_search_and_score self q th lc sf))"
proof -
  let ?raw = "internal_search_and_score self q th lc sf"
  let ?out = "search_and_score self q th lc sf"
  let ?key = "\<lambda>(s, f). (- s, bb_x (r_bounding_box f), bb_y (r_bounding_box f), r_confidence f)"
  have raw_sorted: "sorted (map rank_key ?raw)"
    by (simp add: internal_search_and_score_def Let_def)
  have "map ?key ?out = map rank_key ?raw"
    by (simp add: search_and_score_map fragment_key comp_def)
  with raw_sorted have out_sorted: "sorted (map ?key ?out)"
    by simp
  have pairwise: "i < j \<and> j < length ?out \<longrightarrow>
        (let a = ?out ! i; b = ?out ! j
         in fst b < fst a
            \<or> (fst a = fst b
                \<and> (bb_x (r_bounding_box (snd a)) < bb_x (r_bounding_box (snd b))
                    \<or> (bb_x (r_bounding_box (snd a)) = bb_x (r_bounding_box (snd b))
                        \<and> (bb_y (r_bounding_box (snd a)) < bb_y (r_bounding_box (snd b))
                            \<or> (bb_y (r_bounding_box (snd a)) = bb_y (r_bounding_box (snd b))
                                \<and> r_confidence (snd a) \<le> r_confidence (snd b)))))))"
  proof
    assume ij: "i < j \<and> j < length ?out"
    then have "map ?key ?out ! i \<le> map ?key ?out ! j"
      using out_sorted by (simp add: sorted_iff_nth_mono)
    then have "?key (?out ! i) \<le> ?key (?out ! j)"
      using ij by simp
    then show "let a = ?out ! i; b = ?out ! j
         in fst b < fst a
            \<or> (fst a = fst b
                \<and> (bb_x (r_bounding_box (snd a)) < bb_x (r_bounding_box (snd b))
                    \<or> (bb_x (r_bounding_box (snd a)) = bb_x (r_bounding_box (snd b))
                        \<and> (bb_y (r_bounding_box (snd a)) < bb_y (r_bounding_box (snd b))
                            \<or> (bb_y (r_bounding_box (snd a)) = bb_y (r_bounding_box (snd b))
                                \<and> r_confidence (snd a) \<le> r_confidence (snd b))))))"
      by (simp only: Let_def case_prod_beta key_le_unfold) auto
  qed
  have frags: "items (search self q th lc sf) = map snd ?out"
    by (simp add: search_def Let_def items_init search_and_score_map comp_def case_prod_beta)
  have raws: "data (search self q th lc sf) = map snd ?raw"
    by (simp add: search_def Let_def data_init)
  from out_sorted pairwise frags raws search_and_score_map raw_sorted show ?thesis
    by blast
qed

theorem search_sorted_by_composite_key_witness:
  "(0::nat) < 1
   \<and> 1 < length (search_and_score
        (OCRResults_init [raw_record ''cat'' (1/2) 50 0 9 9, raw_record ''cat'' (1/2) 10 0 9 9,
                          raw_record ''bat'' (1/2) 0 0 9 9])
        ''cat'' 0 False (\<lambda>q t. if q = t then 1 else 2/3))
   \<and> map (\<lambda>(s, f). (s, r_text f, bb_x (r_bounding_box f)))
       (search_and_score
        (OCRResults_init [raw_record ''cat'' (1/2) 50 0 9 9, raw_record ''cat'' (1/2) 10 0 9 9,
                          raw_record ''bat'' (1/2) 0 0 9 9])
        ''cat'' 0 False (\<lambda>q t. if q = t then 1 else 2/3))
     = [(1, ''cat'', 10), (1, ''cat'', 50), (2/3, ''bat'', 0)]"
  using search_sorted_by_composite_key [where i = 0 and j = 1 and q = "''cat''" and th = 0
      and lc = False and sf = "\<lambda>q t. if q = t then 1 else 2/3"
      and self = "OCRResults_init [raw_record ''cat'' (1/2) 50 0 9 9,
                    raw_record ''cat'' (1/2) 10 0 9 9, raw_record ''bat'' (1/2) 0 0 9 9]"]
  by (simp add: search_and_score_def internal_search_and_score_def Let_def rank_key_def
        OCRResults_init_def OCRResult_of_dict_def raw_record_def)



section \<open>Filters\<close>

text \<open>
  Claim C4. For every collection and rectangle \<open>(x, y, w, h)\<close>, \<open>within\<close> keeps exactly the
  raw records whose box \<open>(qx, qy, qw, qh)\<close> satisfies \<open>x \<le> qx\<close>, \<open>y \<le> qy\<close>,
  \<open>qx + qw \<le> x + w\<close> and \<open>qy + qh \<le> y + h\<close>, and the fragments of the result are these
  records parsed. In particular, for \<open>w, h > 2\<close>, a record of the collection with box
  \<open>(x + 1, y + 1, w - 2, h - 2)\<close> is kept and a record with box \<open>(x - 1, y, w, h)\<close> is not.
\<close>

theorem within_keeps_enclosed:
  "data (within_rect self x y w h) =
     filter (\<lambda>d. x \<le> d_x (d_boundingBox d) \<and> y \<le> d_y (d_boundingBox d)
              \<and> d_x (d_boundingBox d) + d_width (d_boundingBox d) \<le> x + w
              \<and> d_y (d_boundingBox d) + d_height (d_boundingBox d) \<le> y + h) (data self)
   \<and> items (within_rect self x y w h) = map OCRResult_of_dict (data (within_rect self x y w h))
   \<and> (2 < w \<and> 2 < h \<and> d \<in> set (data self)
        \<and> d_boundingBox d = \<lparr>d_x = x + 1, d_y = y + 1, d_width = w - 2, d_height = h - 2\<rparr>
      \<longrightarrow> d \<in> set (data (within_rect self x y w h)))
   \<and> (2 < w \<and> 2 < h \<and> d_boundingBox d = \<lparr>d_x = x - 1, d_y = y, d_width = w, d_height = h\<rparr>
      \<longrightarrow> d \<notin> set (data (within_rect self x y w h)))"
  by (simp add: within_rect_def data_init items_init)

theorem within_keeps_enclosed_witness:
  "(2::int) < 10 \<and> (2::int) < 8
   \<and> raw_record ''in'' 1 6 6 8 6
       \<in> set (data (OCRResults_init [raw_record ''in'' 1 6 6 8 6, raw_record ''out'' 1 4 5 10 8]))
   \<and> d_boundingBox (raw_record ''in'' 1 6 6 8 6)
       = \<lparr>d_x = 5 + 1, d_y = 5 + 1, d_width = 10 - 2, d_height = 8 - 2\<rparr>
   \<and> d_boundingBox (raw_record ''out'' 1 4 5 10 8)
       = \<lparr>d_x = 5 - 1, d_y = 5, d_width = 10, d_height = 8\<rparr>
   \<and> data (within_rect
        (OCRResults_init [raw_record ''in'' 1 6 6 8 6, raw_record ''out'' 1 4 5 10 8]) 5 5 10 8)
       = [raw_record ''in'' 1 6 6 8 6]"
  using within_keeps_enclosed [where x = 5 and y = 5 and w = 10 and h = 8
      and self = "OCRResults_init [raw_record ''in'' 1 6 6 8 6, raw_record ''out'' 1 4 5 10 8]"
      and d = "raw_record ''in'' 1 6 6 8 6"]
    within_keeps_enclosed [where x = 5 and y = 5 and w = 10 and h = 8
      and self = "OCRResults_init [raw_record ''in'' 1 6 6 8 6, raw_record ''out'' 1 4 5 10 8]"
      and d = "raw_record ''out'' 1 4 5 10 8"]
  by (simp add: data_init raw_record_def)

text \<open>
  Each of the five filters that cannot raise returns the collection built from the raw
  records that pass its test: the raw records of the result are this sub-list, and its
  fragments are these records parsed, both in the original order. On a collection whose
  fragments are its parsed raw records, as the constructor makes them, the fragments of the
  result are the fragments of the collection that pass the same test on their own fields.
\<close>

lemma filters_return_sublist:
  "minimum_confidence self t = OCRResults_init (filter (\<lambda>d. t \<le> d_confidence d) (data self))
   \<and> within_rect self x y w h =
        OCRResults_init
          (filter (\<lambda>d. x \<le> d_x (d_boundingBox d) \<and> y \<le> d_y (d_boundingBox d)
              \<and> d_x (d_boundingBox d) + d_width (d_boundingBox d) \<le> x + w
              \<and> d_y (d_boundingBox d) + d_height (d_boundingBox d) \<le> y + h) (data self))
   \<and> containing self s lc =
        OCRResults_init
          (filter (\<lambda>d. if lc then str_in (lower s) (lower (d_text d)) else str_in s (d_text d))
             (data self))
   \<and> exactly self s lc =
        OCRResults_init
          (filter (\<lambda>d. if lc then lower s = lower (d_text d) else s = d_text d) (data self))
   \<and> filter_func self func = OCRResults_init (filter func (data self))"
  by (simp add: minimum_confidence_def within_rect_def containing_def exactly_def
        filter_func_def)

lemma init_sublist:
  "data (OCRResults_init (filter P ds)) = filter P ds
   \<and> items (OCRResults_init (filter P ds)) = map OCRResult_of_dict (filter P ds)
   \<and> length (items (OCRResults_init (filter P ds))) = length (data (OCRResults_init (filter P ds)))"
  by (simp add: data_init items_init)

lemma filters_fragments_sublist:
  assumes wf: "items self = map OCRResult_of_dict (data self)"
  shows "items (minimum_confidence self t) = filter (\<lambda>f. t \<le> r_confidence f) (items self)"
    and "items (within_rect self x y w h) =
           filter (\<lambda>f. x \<le> bb_x (r_bounding_box f) \<and> y \<le> bb_y (r_bounding_box f)
              \<and> bb_x (r_bounding_box f) + bb_width (r_bounding_box f) \<le> x + w
              \<and> bb_y (r_bounding_box f) + bb_height (r_bounding_box f) \<le> y + h) (items self)"
    and "items (containing self s lc) =
           filter (\<lambda>f. if lc then str_in (lower s) (lower (r_text f)) else str_in s (r_text f))
             (items self)"
    and "items (exactly self s lc) =
           filter (\<lambda>f. if lc then lower s = lower (r_text f) else s = r_text f) (items self)"
    and "items (filter_func self func) = map OCRResult_of_dict (filter func (data self))"
proof -
  show "items (minimum_confidence self t) = filter (\<lambda>f. t \<le> r_confidence f) (items self)"
    by (simp add: minimum_confidence_def items_init wf filter_map comp_def OCRResult_of_dict_def)
  show "items (within_rect self x y w h) =
           filter (\<lambda>f. x \<le> bb_x (r_bounding_box f) \<and> y \<le> bb_y (r_bounding_box f)
              \<and> bb_x (r_bounding_box f) + bb_width (r_bounding_box f) \<le> x + w
              \<and> bb_y (r_bounding_box f) + bb_height (r_bounding_box f) \<le> y + h) (items self)"
    by (simp add: within_rect_def items_init wf filter_map comp_def OCRResult_of_dict_def)
  show "items (containing self s lc) =
           filter (\<lambda>f. if lc then str_in (lower s) (lower (r_text f)) else str_in s (r_text f))
             (items self)"
    by (simp add: containing_def items_init wf filter_map comp_def OCRResult_of_dict_def)
  show "items (exactly self s lc) =
           filter (\<lambda>f. if lc then lower s = lower (r_text f) else s = r_text f) (items self)"
    by (simp add: exactly_def items_init wf filter_map comp_def OCRResult_of_dict_def)
  show "items (filter_func self func) = map OCRResult_of_dict (filter func (data self))"
    by (simp add: filter_func_def items_init)
qed

text \<open>
  \<open>matching\<close> returns a collection exactly when the matcher raises on no record, and the
  collection is then built from the records on which the matcher, called with the record's
  text first and the caller's pattern second, reports a match.
\<close>

lemma matching_returns:
  "list_all (\<lambda>d. \<exists>b. rm (d_text d) pat fl = Inr b) (data self) \<Longrightarrow>
     matching rm self pat fl =
       Inr (OCRResults_init (filter (\<lambda>d. rm (d_text d) pat fl = Inr True) (data self)))"
  by (simp add: matching_def filter_raising_Inr)

lemma matching_returned:
  "matching rm self pat fl = Inr r \<Longrightarrow>
     r = OCRResults_init (filter (\<lambda>d. rm (d_text d) pat fl = Inr True) (data self))"
  by (auto simp: matching_def split: sum.splits dest: filter_raising_result)

text \<open>
  Claim C5 says that for every collection and each of \<open>minimum_confidence\<close>, \<open>within\<close>,
  \<open>containing\<close>, \<open>exactly\<close>, \<open>matching\<close> and \<open>filter\<close> the result is the sub-list of the
  elements satisfying the operation's predicate, in their original order. The five
  operations of the lemmas above do so; \<open>matching\<close> does not. On the fragments \<open>cd\<close>, \<open>a.\<close>,
  \<open>ab\<close> and the pattern \<open>ab\<close> it returns \<open>a.\<close> and \<open>ab\<close>, whereas the fragments whose text
  the pattern matches are \<open>ab\<close> alone; on the fragments \<open>ab\<close>, \<open>(\<close> and the same pattern
  it raises and returns no result at all.
\<close>

theorem matching_result_is_not_the_matched_sublist:
  "matching re_match
      (OCRResults_init [raw_record ''cd'' 1 0 0 1 1, raw_record ''a.'' 1 2 0 1 1,
                        raw_record ''ab'' 1 4 0 1 1]) ''ab'' 0
     = Inr (OCRResults_init [raw_record ''a.'' 1 2 0 1 1, raw_record ''ab'' 1 4 0 1 1])
   \<and> filter (\<lambda>d. re_match ''ab'' (d_text d) 0 = Inr True)
        [raw_record ''cd'' 1 0 0 1 1, raw_record ''a.'' 1 2 0 1 1, raw_record ''ab'' 1 4 0 1 1]
     = [raw_record ''ab'' 1 4 0 1 1]
   \<and> matching re_match
        (OCRResults_init [raw_record ''ab'' 1 0 0 1 1, raw_record ''('' 1 2 0 1 1]) ''ab'' 0
     = Inl ReError"
  by (simp add: matching_def data_init raw_record_def re_match_def metachars_def re_special_def)

text \<open>
  Claim C6. For every collection and threshold, applying \<open>minimum_confidence\<close> twice with
  the same threshold gives the same collection (the same raw records and fragments in the
  same order) as applying it once; likewise for \<open>containing\<close> and for \<open>exactly\<close> with the
  same text and lowercase flag.
\<close>

theorem filters_idempotent:
  "minimum_confidence (minimum_confidence self t) t = minimum_confidence self t
   \<and> containing (containing self s lc) s lc = containing self s lc
   \<and> exactly (exactly self s lc) s lc = exactly self s lc"
  by (simp add: minimum_confidence_def containing_def exactly_def data_init)

section \<open>Equality of fragments\<close>

text \<open>
  Claim C7. A fragment equals a string exactly when its text is that string. A fragment
  equals another fragment exactly when the text, the confidence and the four fields of the
  bounding box agree, which is to say when the two are the same value field by field;
  hence a difference in any one field breaks the equality.
\<close>

theorem fragment_equality:
  "(OCRResult_eq f (OStr s) \<longleftrightarrow> r_text f = s)
   \<and> (OCRResult_eq f (OResult g) \<longleftrightarrow>
        r_text f = r_text g \<and> r_confidence f = r_confidence g
        \<and> bb_x (r_bounding_box f) = bb_x (r_bounding_box g)
        \<and> bb_y (r_bounding_box f) = bb_y (r_bounding_box g)
        \<and> bb_width (r_bounding_box f) = bb_width (r_bounding_box g)
        \<and> bb_height (r_bounding_box f) = bb_height (r_bounding_box g))
   \<and> (OCRResult_eq f (OResult g) \<longleftrightarrow> f = g)"
proof -
  have fields: "OCRResult_eq f (OResult g) \<longleftrightarrow>
        r_text f = r_text g \<and> r_confidence f = r_confidence g
        \<and> bb_x (r_bounding_box f) = bb_x (r_bounding_box g)
        \<and> bb_y (r_bounding_box f) = bb_y (r_bounding_box g)
        \<and> bb_width (r_bounding_box f) = bb_width (r_bounding_box g)
        \<and> bb_height (r_bounding_box f) = bb_height (r_bounding_box g)"
    by (simp add: OCRResult_data_def)
  have box: "r_bounding_box f = r_bounding_box g \<longleftrightarrow>
        bb_x (r_bounding_box f) = bb_x (r_bounding_box g)
        \<and> bb_y (r_bounding_box f) = bb_y (r_bounding_box g)
        \<and> bb_width (r_bounding_box f) = bb_width (r_bounding_box g)
        \<and> bb_height (r_bounding_box f) = bb_height (r_bounding_box g)"
    by (cases "r_bounding_box f"; cases "r_bounding_box g") simp
  have whole: "f = g \<longleftrightarrow>
        r_text f = r_text g \<and> r_confidence f = r_confidence g
        \<and> r_bounding_box f = r_bounding_box g"
    by (cases f; cases g) simp
  have str: "OCRResult_eq f (OStr s) \<longleftrightarrow> r_text f = s"
    by simp
  from str fields box whole show ?thesis by blast
qed

section \<open>Indexing\<close>

text \<open>
  Claim C9. For every collection, indexing with an integer \<open>i\<close> raises IndexError exactly
  when \<open>i\<close> lies outside the range \<open>-n \<le> i < n\<close> of Python's list indices, \<open>n\<close> the
  length, and for \<open>0 \<le> i < n\<close> returns the single fragment at position \<open>i\<close>. Indexing with
  a slice \<open>lo:hi\<close> never raises and returns a collection, built by the constructor from the
  contiguous run of raw records between the clipped bounds, so that it has the raw records
  and the fragments every operation works on. A key that is neither an integer nor a slice
  raises TypeError.
\<close>

theorem getitem_contract:
  "(getitem self (KInt i) = Inl IndexError
      \<longleftrightarrow> i < - int (length (items self)) \<or> int (length (items self)) \<le> i)
   \<and> (0 \<le> i \<and> i < int (length (items self))
        \<longrightarrow> getitem self (KInt i) = Inr (Single (items self ! nat i)))
   \<and> (- int (length (items self)) \<le> i \<and> i < 0
        \<longrightarrow> getitem self (KInt i) = Inr (Single (items self ! nat (int (length (items self)) + i))))
   \<and> (let n = int (length (data self));
          clip = (\<lambda>v. if v < 0 then max (v + n) 0 else min v n);
          a = (case lo of None \<Rightarrow> 0 | Some v \<Rightarrow> clip v);
          b = (case hi of None \<Rightarrow> n | Some v \<Rightarrow> clip v)
      in getitem self (KSlice lo hi None) =
           Inr (Collection (OCRResults_init (take (nat (b - a)) (drop (nat a) (data self))))))
   \<and> getitem self KOther = Inl TypeError"
proof -
  have out_of_range: "getitem self (KInt i) = Inl IndexError
      \<longleftrightarrow> i < - int (length (items self)) \<or> int (length (items self)) \<le> i"
    by (auto simp: py_index_def)
  have in_range: "0 \<le> i \<and> i < int (length (items self))
        \<longrightarrow> getitem self (KInt i) = Inr (Single (items self ! nat i))"
    by (simp add: py_index_def)
  have from_end: "- int (length (items self)) \<le> i \<and> i < 0
        \<longrightarrow> getitem self (KInt i) = Inr (Single (items self ! nat (int (length (items self)) + i)))"
    by (simp add: py_index_def)
  have sliced: "let n = int (length (data self));
          clip = (\<lambda>v. if v < 0 then max (v + n) 0 else min v n);
          a = (case lo of None \<Rightarrow> 0 | Some v \<Rightarrow> clip v);
          b = (case hi of None \<Rightarrow> n | Some v \<Rightarrow> clip v)
      in getitem self (KSlice lo hi None) =
           Inr (Collection (OCRResults_init (take (nat (b - a)) (drop (nat a) (data self)))))"
    by (simp add: py_slice_plain Let_def)
  have other: "getitem self KOther = Inl TypeError"
    by simp
  from out_of_range in_range from_end sliced other show ?thesis
    by blast
qed

theorem getitem_contract_witness:
  "(0::int) \<le> 1
   \<and> 1 < int (length (items (OCRResults_init
        [raw_record ''a'' 1 0 0 1 1, raw_record ''b'' 1 0 0 1 1, raw_record ''c'' 1 0 0 1 1])))
   \<and> getitem (OCRResults_init
        [raw_record ''a'' 1 0 0 1 1, raw_record ''b'' 1 0 0 1 1, raw_record ''c'' 1 0 0 1 1])
        (KInt 1) = Inr (Single (OCRResult_of_dict (raw_record ''b'' 1 0 0 1 1)))
   \<and> getitem (OCRResults_init
        [raw_record ''a'' 1 0 0 1 1, raw_record ''b'' 1 0 0 1 1, raw_record ''c'' 1 0 0 1 1])
        (KSlice (Some 1) (Some 3) None)
       = Inr (Collection (OCRResults_init
           [raw_record ''b'' 1 0 0 1 1, raw_record ''c'' 1 0 0 1 1]))
   \<and> - int (length (items (OCRResults_init
        [raw_record ''a'' 1 0 0 1 1, raw_record ''b'' 1 0 0 1 1, raw_record ''c'' 1 0 0 1 1])))
       \<le> - 3
   \<and> (- 3 :: int) < 0
   \<and> getitem (OCRResults_init
        [raw_record ''a'' 1 0 0 1 1, raw_record ''b'' 1 0 0 1 1, raw_record ''c'' 1 0 0 1 1])
        (KInt (- 3)) = Inr (Single (OCRResult_of_dict (raw_record ''a'' 1 0 0 1 1)))
   \<and> getitem (OCRResults_init
        [raw_record ''a'' 1 0 0 1 1, raw_record ''b'' 1 0 0 1 1, raw_record ''c'' 1 0 0 1 1])
        (KInt 3) = Inl IndexError"
  using getitem_contract [where i = 1 and lo = "Some 1" and hi = "Some 3"
      and self = "OCRResults_init [raw_record ''a'' 1 0 0 1 1, raw_record ''b'' 1 0 0 1 1,
                                   raw_record ''c'' 1 0 0 1 1]"]
    getitem_contract [where i = "- 3"
      and self = "OCRResults_init [raw_record ''a'' 1 0 0 1 1, raw_record ''b'' 1 0 0 1 1,
                                   raw_record ''c'' 1 0 0 1 1]"]
    getitem_contract [where i = 3
      and self = "OCRResults_init [raw_record ''a'' 1 0 0 1 1, raw_record ''b'' 1 0 0 1 1,
                                   raw_record ''c'' 1 0 0 1 1]"]
  by (simp add: data_init items_init Let_def)

text \<open>
  Claim C10. For every collection of length \<open>n\<close> and every \<open>k\<close> with \<open>1 \<le> k \<le> n\<close>,
  indexing with \<open>-k\<close> raises nothing and returns the fragment at position \<open>n - k\<close>; on a
  non-empty collection the index \<open>-1\<close> returns the fragment that \<open>last\<close> returns.
\<close>

theorem negative_index_counts_from_end:
  "(1 \<le> k \<and> k \<le> int (length (items self))
      \<longrightarrow> getitem self (KInt (- k))
            = Inr (Single (items self ! nat (int (length (items self)) - k))))
   \<and> (items self \<noteq> []
      \<longrightarrow> (\<exists>f. getitem self (KInt (- 1)) = Inr (Single f) \<and> last self = Inr (Some f)))"
proof -
  have from_end: "1 \<le> k \<and> k \<le> int (length (items self))
      \<longrightarrow> getitem self (KInt (- k))
            = Inr (Single (items self ! nat (int (length (items self)) - k)))"
    by (simp add: py_index_def)
  have as_last: "items self \<noteq> []
      \<longrightarrow> (\<exists>f. getitem self (KInt (- 1)) = Inr (Single f) \<and> last self = Inr (Some f))"
  proof
    assume ne: "items self \<noteq> []"
    then have "1 \<le> int (length (items self))"
      by (cases "items self") simp_all
    then have "py_index (items self) (- 1)
        = Inr (items self ! nat (int (length (items self)) - 1))"
      by (simp add: py_index_def)
    then show "\<exists>f. getitem self (KInt (- 1)) = Inr (Single f) \<and> last self = Inr (Some f)"
      using ne by (simp add: last_def)
  qed
  from from_end as_last show ?thesis
    by blast
qed

theorem negative_index_counts_from_end_witness:
  "(1::int) \<le> 2
   \<and> 2 \<le> int (length (items (OCRResults_init
        [raw_record ''a'' 1 0 0 1 1, raw_record ''b'' 1 0 0 1 1, raw_record ''c'' 1 0 0 1 1])))
   \<and> items (OCRResults_init
        [raw_record ''a'' 1 0 0 1 1, raw_record ''b'' 1 0 0 1 1, raw_record ''c'' 1 0 0 1 1]) \<noteq> []
   \<and> getitem (OCRResults_init
        [raw_record ''a'' 1 0 0 1 1, raw_record ''b'' 1 0 0 1 1, raw_record ''c'' 1 0 0 1 1])
        (KInt (- 2)) = Inr (Single (OCRResult_of_dict (raw_record ''b'' 1 0 0 1 1)))
   \<and> getitem (OCRResults_init
        [raw_record ''a'' 1 0 0 1 1, raw_record ''b'' 1 0 0 1 1, raw_record ''c'' 1 0 0 1 1])
        (KInt (- 1)) = Inr (Single (OCRResult_of_dict (raw_record ''c'' 1 0 0 1 1)))
   \<and> last (OCRResults_init
        [raw_record ''a'' 1 0 0 1 1, raw_record ''b'' 1 0 0 1 1, raw_record ''c'' 1 0 0 1 1])
       = Inr (Some (OCRResult_of_dict (raw_record ''c'' 1 0 0 1 1)))"
  using negative_index_counts_from_end [where k = 2
      and self = "OCRResults_init [raw_record ''a'' 1 0 0 1 1, raw_record ''b'' 1 0 0 1 1,
                                   raw_record ''c'' 1 0 0 1 1]"]
  by (simp add: items_init last_def py_index_def)

section \<open>The regular-expression filter\<close>

text \<open>
  Claim C2 says that \<open>matching\<close> keeps the fragments whose text matches the caller's
  pattern. The code passes the two strings to the matcher the other way round. On the
  collection of the single fragment \<open>ab\<close> and the pattern \<open>a.\<close>, the pattern matches the
  text, yet the fragment is dropped, because the text \<open>ab\<close> taken as a pattern does not
  match the string \<open>a.\<close>; on the single fragment \<open>a.\<close> and the pattern \<open>ab\<close>, the pattern
  does not match the text, yet the fragment is kept.
\<close>

theorem matching_takes_text_as_pattern:
  "re_match ''a.'' ''ab'' 0 = Inr True
   \<and> matching re_match (OCRResults_init [raw_record ''ab'' 1 0 0 1 1]) ''a.'' 0
       = Inr (OCRResults_init [])
   \<and> re_match ''ab'' ''a.'' 0 = Inr False
   \<and> matching re_match (OCRResults_init [raw_record ''a.'' 1 0 0 1 1]) ''ab'' 0
       = Inr (OCRResults_init [raw_record ''a.'' 1 0 0 1 1])"
  by (simp add: matching_def data_init raw_record_def re_match_def metachars_def re_special_def)

text \<open>
  For any matcher, what \<open>matching\<close> tests on a record is the matcher's verdict on the
  record's text as pattern and the caller's pattern as subject, and an exception of the
  matcher on some record is the outcome of the whole call.
\<close>

lemma matching_raises:
  "matching rm self pat fl = Inl e \<Longrightarrow> \<exists>d \<in> set (data self). rm (d_text d) pat fl = Inl e"
  by (auto simp: matching_def split: sum.splits dest: filter_raising_Inl)

section \<open>Totality\<close>

text \<open>
  Claim C8 says that every filter and search operation is total on well-formed
  collections and never signals an error. \<open>matching\<close> on the collection of the single
  fragment whose text is an opening parenthesis, with the pattern \<open>a\<close>, raises the
  matcher's compile error: the fragment's text is compiled as the pattern.
\<close>

theorem matching_raises_on_fragment_text:
  "matching re_match (OCRResults_init [raw_record ''('' 1 0 0 1 1]) ''a'' 0 = Inl ReError"
  by (simp add: matching_def data_init raw_record_def re_match_def metachars_def re_special_def)

text \<open>
  The other operations return a value by construction (their results carry no error), and
  on the empty collection every operation, \<open>matching\<close> included, returns the empty
  collection, the empty list of pairs, or no fragment.
\<close>

lemma empty_collection_closure:
  "minimum_confidence (OCRResults_init []) t = OCRResults_init []
   \<and> within_rect (OCRResults_init []) x y w h = OCRResults_init []
   \<and> containing (OCRResults_init []) s lc = OCRResults_init []
   \<and> exactly (OCRResults_init []) s lc = OCRResults_init []
   \<and> matching rm (OCRResults_init []) pat fl = Inr (OCRResults_init [])
   \<and> filter_func (OCRResults_init []) func = OCRResults_init []
   \<and> search (OCRResults_init []) q th lc sf = OCRResults_init []
   \<and> search_and_score (OCRResults_init []) q th lc sf = []
   \<and> first (OCRResults_init []) = Inr None
   \<and> last (OCRResults_init []) = Inr None
   \<and> empty (OCRResults_init [])"
  by (simp add: minimum_confidence_def within_rect_def containing_def exactly_def
        matching_def filter_func_def search_def search_and_score_def
        internal_search_and_score_def first_def last_def empty_def data_init items_init)

lemma first_last_never_raise:
  "first self = (case items self of [] \<Rightarrow> Inr None | f # fs \<Rightarrow> Inr (Some f))
   \<and> last self = (if items self = [] then Inr None else Inr (Some (List.last (items self))))"
proof -
  have a: "first self = (case items self of [] \<Rightarrow> Inr None | f # fs \<Rightarrow> Inr (Some f))"
    by (cases "items self") (simp_all add: first_def py_index_def)
  have "items self \<noteq> [] \<Longrightarrow> py_index (items self) (- 1) = Inr (List.last (items self))"
  proof -
    assume ne: "items self \<noteq> []"
    then have "1 \<le> int (length (items self))"
      by (cases "items self") simp_all
    moreover have "nat (int (length (items self)) - 1) = length (items self) - 1"
      by simp
    ultimately show ?thesis
      using ne by (simp add: py_index_def last_conv_nth)
  qed
  then have b: "last self = (if items self = [] then Inr None else Inr (Some (List.last (items self))))"
    by (simp add: last_def)
  from a b show ?thesis by blast
qed

end
